theory Spec2Isabelle
  imports Main
begin

section \<open>Python values and exceptions\<close>

text \<open>
  The integration passes duck-typed values around: configuration strings, \<open>None\<close>, and the
  JSON payload of the transit client. \<open>pyval\<close> is that universe. A \<open>PDict\<close> carries its
  items in insertion order; its keys are distinct, as the keys of a Python dict are, and a
  lookup returns the binding of the key.
\<close>

datatype pyval =
    PNone
  | PBool bool
  | PInt int
  | PStr string
  | PList "pyval list"
  | PDict "(string \<times> pyval) list"

text \<open>
  The exceptions that occur in the four modules. All of them derive from Python's
  \<open>Exception\<close>, so every \<open>except Exception\<close> clause catches each of them. \<open>UpdateFailed\<close>
  keeps its message; the message of \<open>ConfigEntryNotReady\<close> is left out.
\<close>

datatype exn =
    AttributeError
  | TypeError
  | IndexError
  | KeyError
  | NameError
  | UpdateFailed string
  | ConfigEntryNotReady
  | AuthenticationError
  | NetworkError
  | InvalidAuth
  | CannotConnect
  | OtherError string

text \<open>Truth value testing, as \<open>not x\<close>, \<open>if x\<close> and \<open>all([...])\<close> apply it.\<close>

fun truthy :: "pyval \<Rightarrow> bool" where
  "truthy PNone = False"
| "truthy (PBool b) = b"
| "truthy (PInt i) = (i \<noteq> 0)"
| "truthy (PStr s) = (s \<noteq> [])"
| "truthy (PList xs) = (xs \<noteq> [])"
| "truthy (PDict kvs) = (kvs \<noteq> [])"

text \<open>\<open>x or y\<close>.\<close>

definition py_or :: "pyval \<Rightarrow> pyval \<Rightarrow> pyval" where
  "py_or x y = (if truthy x then x else y)"

text \<open>\<open>d.get(k, dflt)\<close>: only a dict has the method.\<close>

fun dict_get :: "pyval \<Rightarrow> string \<Rightarrow> pyval \<Rightarrow> exn + pyval" where
  "dict_get (PDict kvs) k dflt = Inr (case map_of kvs k of None \<Rightarrow> dflt | Some v \<Rightarrow> v)"
| "dict_get _ k dflt = Inl AttributeError"

text \<open>
  \<open>x[0]\<close>: the first element of a list, the first character of a string, \<open>IndexError\<close> on an
  empty one, \<open>KeyError\<close> on a dict (its keys are strings), \<open>TypeError\<close> on anything else.
\<close>

fun subscript0 :: "pyval \<Rightarrow> exn + pyval" where
  "subscript0 (PList []) = Inl IndexError"
| "subscript0 (PList (x # xs)) = Inr x"
| "subscript0 (PStr []) = Inl IndexError"
| "subscript0 (PStr (c # cs)) = Inr (PStr [c])"
| "subscript0 (PDict kvs) = Inl KeyError"
| "subscript0 _ = Inl TypeError"

text \<open>\<open>for x in v\<close>: the elements of a list, the characters of a string, the keys of a dict.\<close>

fun py_iter :: "pyval \<Rightarrow> exn + pyval list" where
  "py_iter (PList xs) = Inr xs"
| "py_iter (PStr s) = Inr (map (\<lambda>c. PStr [c]) s)"
| "py_iter (PDict kvs) = Inr (map (\<lambda>kv. PStr (fst kv)) kvs)"
| "py_iter _ = Inl TypeError"

text \<open>Sequencing of steps that may raise: the first exception ends the block.\<close>

fun and_then :: "exn + 'a \<Rightarrow> ('a \<Rightarrow> exn + 'b) \<Rightarrow> exn + 'b" where
  "and_then (Inl e) f = Inl e"
| "and_then (Inr x) f = f x"

section \<open>The refresh coordinator (sensor.py)\<close>

text \<open>
  \<open>HVVRoutesDataUpdateCoordinator\<close>: the fields its \<open>__init__\<close> sets, and the two fields of the
  host's base class that the integration reads or that a refresh writes (\<open>data\<close>,
  \<open>last_update_success\<close>).
\<close>

record coordinator =
  username :: pyval
  password :: pyval
  home_station :: pyval
  home_city :: pyval
  dest_station :: pyval
  dest_city :: pyval
  departure_time :: pyval
  data :: pyval
  last_update_success :: bool

definition coordinator_init :: "pyval \<Rightarrow> pyval \<Rightarrow> pyval \<Rightarrow> pyval \<Rightarrow> coordinator" where
  "coordinator_init user pass hstation hcity =
     \<lparr> username = user, password = pass,
       home_station = hstation, home_city = hcity,
       dest_station = PNone, dest_city = PNone, departure_time = PNone,
       data = PNone, last_update_success = True \<rparr>"

text \<open>
  The transit client is opaque: asked with a request payload, \<open>getRoute\<close> returns a response or
  raises. Its answer may differ from call to call, so it also takes the number of requests
  sent before this one. The requests sent so far are kept in a list, which is how a call to
  the client is observed.
\<close>

datatype client_outcome = Raises string | Returns pyval

type_synonym transit_client = "nat \<Rightarrow> pyval \<Rightarrow> client_outcome"

definition route_payload :: "coordinator \<Rightarrow> pyval" where
  "route_payload c =
     PDict [
       (''start'', PDict [(''name'', home_station c), (''city'', home_city c),
                          (''type'', PStr ''STATION'')]),
       (''dest'', PDict [(''name'', dest_station c), (''city'', dest_city c),
                         (''type'', PStr ''STATION'')]),
       (''time'', PDict [(''date'', PStr ''today''),
                         (''time'', py_or (departure_time c) (PStr ''currenttime''))]),
       (''timeIsDeparture'', PBool True),
       (''realtime'', PStr ''REALTIME'')]"

text \<open>
  \<open>_async_update_data\<close>. Without a destination it returns \<open>None\<close> before the \<open>try\<close> block.
  Inside the block, the \<open>UpdateFailed\<close> raised for an empty response is caught by the
  block's own \<open>except Exception\<close> and raised again with the prefix \<open>Error:\<close>, like any
  exception of the client.
\<close>

definition async_update_data ::
  "transit_client \<Rightarrow> coordinator \<Rightarrow> pyval list \<Rightarrow> (exn + pyval) \<times> pyval list" where
  "async_update_data gti c reqs =
     (if \<not> (truthy (dest_station c) \<and> truthy (dest_city c)) then (Inr PNone, reqs)
      else
        (case gti (length reqs) (route_payload c) of
           Raises msg \<Rightarrow>
             (Inl (UpdateFailed (''Error: '' @ msg)), reqs @ [route_payload c])
         | Returns route_data \<Rightarrow>
             if \<not> truthy route_data
             then (Inl (UpdateFailed (''Error: '' @ ''No route data received'')),
                   reqs @ [route_payload c])
             else (Inr route_data, reqs @ [route_payload c])))"

text \<open>
  Modelled from the spec: \<open>async_refresh\<close> of the host's \<open>DataUpdateCoordinator\<close>, the base
  class, which is not part of the repository. It runs \<open>_async_update_data\<close> once and awaits
  it; a returned value replaces the stored payload; a failure is "converted to a stored
  failure state visible to subscribers" and never escapes, and the payload stored before
  stays.
\<close>

definition async_refresh ::
  "transit_client \<Rightarrow> coordinator \<Rightarrow> pyval list \<Rightarrow> coordinator \<times> pyval list" where
  "async_refresh gti c reqs =
     (case async_update_data gti c reqs of
        (Inr v, reqs') \<Rightarrow> (c\<lparr>data := v, last_update_success := True\<rparr>, reqs')
      | (Inl e, reqs') \<Rightarrow> (c\<lparr>last_update_success := False\<rparr>, reqs'))"

text \<open>
  Modelled from the spec: \<open>async_config_entry_first_refresh\<close> of the same base class. It is a
  refresh whose failure is raised to the caller as "not ready, retry later".
\<close>

definition async_config_entry_first_refresh ::
  "transit_client \<Rightarrow> coordinator \<Rightarrow> pyval list \<Rightarrow> (exn + coordinator) \<times> pyval list" where
  "async_config_entry_first_refresh gti c reqs =
     (case async_refresh gti c reqs of
        (c', reqs') \<Rightarrow>
          if last_update_success c' then (Inr c', reqs')
          else (Inl ConfigEntryNotReady, reqs'))"

definition set_destination ::
  "transit_client \<Rightarrow> pyval \<Rightarrow> pyval \<Rightarrow> coordinator \<Rightarrow> pyval list \<Rightarrow> coordinator \<times> pyval list" where
  "set_destination gti station city c reqs =
     async_refresh gti (c\<lparr>dest_station := station, dest_city := city\<rparr>) reqs"

definition set_departure_time ::
  "transit_client \<Rightarrow> pyval \<Rightarrow> coordinator \<Rightarrow> pyval list \<Rightarrow> coordinator \<times> pyval list" where
  "set_departure_time gti time c reqs =
     async_refresh gti (c\<lparr>departure_time := time\<rparr>) reqs"

section \<open>The route sensor (sensor.py)\<close>

text \<open>
  \<open>HVVDynamicRouteSensor.state\<close>: the body of the \<open>try\<close> block, then the property with its
  \<open>except Exception\<close> clause. It reads \<open>coordinator.data\<close> and nothing else.
\<close>

definition state_body :: "pyval \<Rightarrow> exn + pyval" where
  "state_body d =
     (if \<not> truthy d then Inr (PStr ''No Destination Set'')
      else
        and_then (dict_get d ''realtimeSchedules'' (PList [])) (\<lambda>schedules.
          if truthy schedules
          then and_then (subscript0 schedules) (\<lambda>s0. dict_get s0 ''time'' (PStr ''Unknown''))
          else Inr (PStr ''No Routes Found'')))"

definition state :: "coordinator \<Rightarrow> pyval" where
  "state c = (case state_body (data c) of Inr v \<Rightarrow> v | Inl e \<Rightarrow> PStr ''Error'')"

text \<open>
  \<open>extra_state_attributes\<close>. \<open>first_leg_field\<close> is the expression
  \<open>schedule.get('scheduleElements', [{}])[0].get('line', {}).get(field)\<close>; \<open>route_of\<close> builds the
  entry of one journey, evaluating the five values in the order of the dict display;
  \<open>routes_loop\<close> is the \<open>for\<close> loop, which the first exception leaves.
\<close>

definition first_leg_field :: "pyval \<Rightarrow> string \<Rightarrow> exn + pyval" where
  "first_leg_field schedule field =
     and_then (dict_get schedule ''scheduleElements'' (PList [PDict []])) (\<lambda>elements.
     and_then (subscript0 elements) (\<lambda>leg.
     and_then (dict_get leg ''line'' (PDict [])) (\<lambda>line.
     dict_get line field PNone)))"

definition route_of :: "pyval \<Rightarrow> exn + pyval" where
  "route_of schedule =
     and_then (dict_get schedule ''plannedDepartureTime'' PNone) (\<lambda>dep.
     and_then (dict_get schedule ''plannedArrivalTime'' PNone) (\<lambda>arr.
     and_then (dict_get schedule ''time'' PNone) (\<lambda>dur.
     and_then (first_leg_field schedule ''name'') (\<lambda>line.
     and_then (first_leg_field schedule ''direction'') (\<lambda>direction.
     Inr (PDict [(''departure_time'', dep), (''arrival_time'', arr), (''duration'', dur),
                 (''line'', line), (''direction'', direction)]))))))"

fun routes_loop :: "pyval list \<Rightarrow> pyval list \<Rightarrow> exn + pyval list" where
  "routes_loop [] routes = Inr routes"
| "routes_loop (schedule # rest) routes =
     and_then (route_of schedule) (\<lambda>route. routes_loop rest (routes @ [route]))"

definition config_echo :: "coordinator \<Rightarrow> (string \<times> pyval) list" where
  "config_echo c =
     [(''home_station'', home_station c), (''home_city'', home_city c),
      (''destination_station'', dest_station c), (''destination_city'', dest_city c),
      (''departure_time'', departure_time c)]"

definition attributes_body :: "coordinator \<Rightarrow> exn + pyval" where
  "attributes_body c =
     (if \<not> truthy (data c) then Inr (PDict (config_echo c))
      else
        and_then (dict_get (data c) ''realtimeSchedules'' (PList [])) (\<lambda>schedules.
        and_then (py_iter schedules) (\<lambda>items.
        and_then (routes_loop items []) (\<lambda>routes.
        Inr (PDict (config_echo c @ [(''routes'', PList routes)]))))))"

definition extra_state_attributes :: "coordinator \<Rightarrow> pyval" where
  "extra_state_attributes c =
     (case attributes_body c of Inr v \<Rightarrow> v | Inl e \<Rightarrow> PDict [])"

section \<open>The host: stored coordinators, entities, log\<close>

text \<open>
  Coordinators are objects with identity: two entities can hold the same one or two different
  ones. \<open>objects\<close> is the store, from references to objects; \<open>next_ref\<close> is the next unused
  reference. \<open>domain_data\<close> is \<open>hass.data[DOMAIN]['coordinators']\<close>, from config-entry ids to
  references (\<open>None\<close> while \<open>hass.data\<close> has no \<open>DOMAIN\<close> key: the two levels are created
  together). \<open>registry\<close> is the host's entity registry, \<open>sensors\<close> the entities added to the
  host, both keyed by entity id. \<open>requests\<close> are the payloads sent to the transit client, \<open>log\<close>
  the records written at warning, error and info level (debug records are left out).
\<close>

record entity_entry =
  config_entry_id :: "string option"

record sensor =
  coordinator_ref :: nat
  attr_name :: string
  attr_unique_id :: string
  attr_icon :: string

datatype log_entry =
    NoEntityFound pyval
  | NoCoordinatorFound pyval
  | ErrorSettingRoute pyval exn
  | RouteSet pyval pyval pyval
  | MissingConfiguration
  | SetupError exn

datatype log_level = Warning | Error | Info

fun level :: "log_entry \<Rightarrow> log_level" where
  "level (NoEntityFound i) = Warning"
| "level (NoCoordinatorFound i) = Warning"
| "level (ErrorSettingRoute i e) = Error"
| "level (RouteSet i s c) = Info"
| "level MissingConfiguration = Error"
| "level (SetupError e) = Error"

record hass =
  objects :: "nat \<Rightarrow> coordinator"
  next_ref :: nat
  domain_data :: "(string \<Rightarrow> nat option) option"
  registry :: "string \<Rightarrow> entity_entry option"
  sensors :: "string \<Rightarrow> sensor option"
  requests :: "pyval list"
  log :: "log_entry list"

definition hass_init :: hass where
  "hass_init =
     \<lparr> objects = (\<lambda>r. coordinator_init PNone PNone PNone PNone), next_ref = 0,
       domain_data = None, registry = (\<lambda>i. None), sensors = (\<lambda>i. None),
       requests = [], log = [] \<rparr>"

definition write_log :: "log_entry \<Rightarrow> hass \<Rightarrow> hass" where
  "write_log entry h = h\<lparr>log := log h @ [entry]\<rparr>"

text \<open>Constructing an object stores it under a new reference.\<close>

definition new_coordinator :: "coordinator \<Rightarrow> hass \<Rightarrow> nat \<times> hass" where
  "new_coordinator c h =
     (next_ref h, h\<lparr>objects := (objects h)(next_ref h := c), next_ref := Suc (next_ref h)\<rparr>)"

text \<open>A method call on the object behind a reference: the object is updated in place.\<close>

definition on_coordinator ::
  "(coordinator \<Rightarrow> pyval list \<Rightarrow> coordinator \<times> pyval list) \<Rightarrow> nat \<Rightarrow> hass \<Rightarrow> hass" where
  "on_coordinator method r h =
     (case method (objects h r) (requests h) of
        (c', reqs') \<Rightarrow> h\<lparr>objects := (objects h)(r := c'), requests := reqs'\<rparr>)"

text \<open>\<open>hass.data.get(DOMAIN, {}).get('coordinators', {}).get(config_entry_id)\<close>.\<close>

definition stored_coordinator :: "hass \<Rightarrow> string option \<Rightarrow> nat option" where
  "stored_coordinator h cid =
     (case domain_data h of
        None \<Rightarrow> None
      | Some coordinators \<Rightarrow> (case cid of None \<Rightarrow> None | Some i \<Rightarrow> coordinators i))"

text \<open>
  Modelled from the spec: \<open>async_get\<close> of the host's entity registry, which is not part of
  the repository and resolves "each identifier to its owning integration instance". The
  registry is a dict keyed by entity-id strings: asked with a list or a dict, which cannot be
  hashed, the lookup raises \<open>TypeError\<close>; any other key that is not a string is not found.
\<close>

fun registry_get :: "(string \<Rightarrow> entity_entry option) \<Rightarrow> pyval \<Rightarrow> exn + entity_entry option" where
  "registry_get reg (PStr s) = Inr (reg s)"
| "registry_get reg (PList xs) = Inl TypeError"
| "registry_get reg (PDict kvs) = Inl TypeError"
| "registry_get reg _ = Inr None"

section \<open>The route-setting command (services.py)\<close>

text \<open>\<open>call.data.get(key, default)\<close>: the service is registered without a schema.\<close>

definition call_get :: "(string \<times> pyval) list \<Rightarrow> string \<Rightarrow> pyval \<Rightarrow> pyval" where
  "call_get call_data k dflt = (case map_of call_data k of None \<Rightarrow> dflt | Some v \<Rightarrow> v)"

text \<open>
  The body of the \<open>try\<close> block for one entity id. Each \<open>continue\<close> ends it after the warning.
  Only the registry lookup can raise, before anything is changed.
\<close>

definition route_body ::
  "transit_client \<Rightarrow> pyval \<Rightarrow> pyval \<Rightarrow> pyval \<Rightarrow> hass \<Rightarrow> pyval \<Rightarrow> exn + hass" where
  "route_body gti destination_station destination_city dtime h entity_id =
     and_then (registry_get (registry h) entity_id) (\<lambda>entity_entry.
       case entity_entry of
         None \<Rightarrow> Inr (write_log (NoEntityFound entity_id) h)
       | Some entry \<Rightarrow>
           (case stored_coordinator h (config_entry_id entry) of
              None \<Rightarrow> Inr (write_log (NoCoordinatorFound entity_id) h)
            | Some r \<Rightarrow>
                (let h1 = on_coordinator
                            (set_destination gti destination_station destination_city) r h
                 in if truthy dtime
                    then Inr (write_log
                                (RouteSet entity_id destination_station destination_city)
                                (on_coordinator (set_departure_time gti dtime) r h1))
                    else Inr h1)))"

text \<open>One iteration: the \<open>try\<close> block with its \<open>except Exception\<close> clause.\<close>

definition route_step ::
  "transit_client \<Rightarrow> pyval \<Rightarrow> pyval \<Rightarrow> pyval \<Rightarrow> hass \<Rightarrow> pyval \<Rightarrow> hass" where
  "route_step gti destination_station destination_city dtime h entity_id =
     (case route_body gti destination_station destination_city dtime h entity_id of
        Inr h' \<Rightarrow> h'
      | Inl e \<Rightarrow> write_log (ErrorSettingRoute entity_id e) h)"

fun route_loop ::
  "transit_client \<Rightarrow> pyval \<Rightarrow> pyval \<Rightarrow> pyval \<Rightarrow> pyval list \<Rightarrow> hass \<Rightarrow> hass" where
  "route_loop gti destination_station destination_city dtime [] h = h"
| "route_loop gti destination_station destination_city dtime (entity_id # rest) h =
     route_loop gti destination_station destination_city dtime rest
       (route_step gti destination_station destination_city dtime h entity_id)"

text \<open>
  \<open>handle_set_route\<close>. The \<open>for\<close> statement is outside every \<open>try\<close>: an \<open>entity_id\<close> value
  that cannot be iterated raises to the caller.
\<close>

definition target_ids :: "(string \<times> pyval) list \<Rightarrow> pyval" where
  "target_ids call_data =
     (case call_get call_data ''entity_id'' (PList []) of
        PStr s \<Rightarrow> PList [PStr s]
      | v \<Rightarrow> v)"

definition handle_set_route ::
  "transit_client \<Rightarrow> (string \<times> pyval) list \<Rightarrow> hass \<Rightarrow> exn + hass" where
  "handle_set_route gti call_data h =
     and_then (py_iter (target_ids call_data)) (\<lambda>entity_ids.
       Inr (route_loop gti
              (call_get call_data ''destination_station'' PNone)
              (call_get call_data ''destination_city'' PNone)
              (call_get call_data ''departure_time'' (PStr ''currenttime''))
              entity_ids h))"

section \<open>Setting up an instance (__init__.py, sensor.py)\<close>

text \<open>
  A config entry as the config flow creates it: an id and the four strings of
  \<open>async_step_user\<close> and \<open>async_step_home_location\<close>.
\<close>

record config_entry =
  entry_id :: string
  conf_username :: string
  conf_password :: string
  conf_home_station :: string
  conf_home_city :: string

text \<open>
  Modelled from the spec: \<open>async_add_entities\<close> of the host, which is not part of the
  repository. The entity is added under the entity id the host gives it, and registered
  with the id of its config entry ("resolve each identifier to its owning integration
  instance via the host's entity registry").
\<close>

definition async_add_entities :: "string \<Rightarrow> string \<Rightarrow> sensor \<Rightarrow> hass \<Rightarrow> hass" where
  "async_add_entities entity_id eid s h =
     h\<lparr>sensors := (sensors h)(entity_id := Some s),
       registry := (registry h)(entity_id := Some \<lparr>config_entry_id = Some eid\<rparr>)\<rparr>"

text \<open>\<open>async_setup_entry\<close> of sensor.py; \<open>entity_id\<close> is the id the host gives the sensor.\<close>

definition sensor_async_setup_entry ::
  "transit_client \<Rightarrow> string \<Rightarrow> config_entry \<Rightarrow> hass \<Rightarrow> exn + hass" where
  "sensor_async_setup_entry gti entity_id entry h =
     (case new_coordinator
             (coordinator_init (PStr (conf_username entry)) (PStr (conf_password entry))
                (PStr (conf_home_station entry)) (PStr (conf_home_city entry))) h of
        (r, h1) \<Rightarrow>
          (let s = \<lparr> coordinator_ref = r,
                     attr_name = ''HVV Route from '' @ conf_home_station entry,
                     attr_unique_id = ''hvv_route_'' @ entry_id entry,
                     attr_icon = ''mdi:bus-clock'' \<rparr>
           in case async_config_entry_first_refresh gti (objects h1 r) (requests h1) of
                (Inl e, reqs') \<Rightarrow> Inl ConfigEntryNotReady
              | (Inr c', reqs') \<Rightarrow>
                  Inr (async_add_entities entity_id (entry_id entry) s
                         (h1\<lparr>objects := (objects h1)(r := c'), requests := reqs'\<rparr>))))"

text \<open>
  \<open>async_setup_entry\<close> of __init__.py. Forwarding the entry to the sensor platform runs the
  platform's \<open>async_setup_entry\<close>. Registering the service makes \<open>handle_set_route\<close>
  callable and changes nothing else.
\<close>

definition async_setup_entry ::
  "transit_client \<Rightarrow> string \<Rightarrow> config_entry \<Rightarrow> hass \<Rightarrow> exn + bool \<times> hass" where
  "async_setup_entry gti entity_id entry h =
     (if \<not> (conf_username entry \<noteq> [] \<and> conf_password entry \<noteq> [] \<and>
             conf_home_station entry \<noteq> [] \<and> conf_home_city entry \<noteq> [])
      then Inr (False, write_log MissingConfiguration h)
      else
        (case new_coordinator
                (coordinator_init (PStr (conf_username entry)) (PStr (conf_password entry))
                   (PStr (conf_home_station entry)) (PStr (conf_home_city entry))) h of
           (r, h1) \<Rightarrow>
             (case async_config_entry_first_refresh gti (objects h1 r) (requests h1) of
                (Inl e, reqs') \<Rightarrow> Inl ConfigEntryNotReady
              | (Inr c', reqs') \<Rightarrow>
                  (let h2 = h1\<lparr>objects := (objects h1)(r := c'), requests := reqs'\<rparr>;
                       h3 = h2\<lparr>domain_data :=
                                 Some ((case domain_data h2 of
                                          None \<Rightarrow> (\<lambda>i. None)
                                        | Some coordinators \<Rightarrow> coordinators)
                                       (entry_id entry := Some r))\<rparr>
                   in case sensor_async_setup_entry gti entity_id entry h3 of
                        Inl e \<Rightarrow> Inl ConfigEntryNotReady
                      | Inr h4 \<Rightarrow> Inr (True, h4)))))"

section \<open>Credential validation (config_flow.py)\<close>

text \<open>
  \<open>validate_auth\<close> awaits the probe \<open>gti.init()\<close> inside two nested \<open>try\<close> blocks.
  config_flow.py neither imports nor defines the names \<open>AuthenticationError\<close> and
  \<open>NetworkError\<close> of the inner \<open>except\<close> clauses, so whether they resolve is a parameter:
  when they do not, matching the raised exception against the first clause raises
  \<open>NameError\<close> in its place.
\<close>

datatype probe = ProbeReturns | ProbeRaises exn

definition inner_try :: "bool \<Rightarrow> probe \<Rightarrow> exn + unit" where
  "inner_try names_resolve p =
     (case p of
        ProbeReturns \<Rightarrow> Inr ()
      | ProbeRaises e \<Rightarrow>
          if \<not> names_resolve then Inl NameError
          else if e = AuthenticationError then Inl InvalidAuth
          else if e = NetworkError then Inl CannotConnect
          else Inl e)"

definition validate_auth :: "bool \<Rightarrow> probe \<Rightarrow> exn + unit" where
  "validate_auth names_resolve p =
     (case inner_try names_resolve p of
        Inr u \<Rightarrow> Inr u
      | Inl e \<Rightarrow> Inl InvalidAuth)"

section \<open>Concrete inputs\<close>

text \<open>
  Three transit clients (one that fails, one that answers with an empty response, one that
  answers with a single journey to Altona), a coordinator for the home station Hauptbahnhof,
  without and with a destination, a config entry, and two calls of the command.
\<close>

definition failing_client :: transit_client where
  "failing_client n payload = Raises ''timeout''"

definition empty_client :: transit_client where
  "empty_client n payload = Returns (PDict [])"

definition altona_response :: pyval where
  "altona_response =
     PDict [(''realtimeSchedules'',
             PList [PDict [(''time'', PInt 25),
                           (''plannedDepartureTime'', PStr ''08:00''),
                           (''plannedArrivalTime'', PStr ''08:25''),
                           (''scheduleElements'',
                            PList [PDict [(''line'', PDict [(''name'', PStr ''S1''),
                                                            (''direction'', PStr ''Wedel'')])]])]])]"

definition altona_client :: transit_client where
  "altona_client n payload = Returns altona_response"

definition no_legs_response :: pyval where
  "no_legs_response =
     PDict [(''realtimeSchedules'',
             PList [PDict [(''time'', PInt 25), (''scheduleElements'', PList [])]])]"

definition home_coordinator :: coordinator where
  "home_coordinator =
     coordinator_init (PStr ''user'') (PStr ''secret'') (PStr ''Hauptbahnhof'') (PStr ''Hamburg'')"

definition altona_coordinator :: coordinator where
  "altona_coordinator =
     home_coordinator\<lparr>dest_station := PStr ''Altona'', dest_city := PStr ''Hamburg''\<rparr>"

definition entry1 :: config_entry where
  "entry1 = \<lparr> entry_id = ''entry1'', conf_username = ''user'', conf_password = ''secret'',
              conf_home_station = ''Hauptbahnhof'', conf_home_city = ''Hamburg'' \<rparr>"

definition configured_hass :: hass where
  "configured_hass =
     (case async_setup_entry altona_client ''sensor.hvv_route'' entry1 hass_init of
        Inr (ok, h) \<Rightarrow> h
      | Inl e \<Rightarrow> hass_init)"

definition altona_call :: "(string \<times> pyval) list" where
  "altona_call = [(''entity_id'', PStr ''sensor.hvv_route''),
                  (''destination_station'', PStr ''Altona''),
                  (''destination_city'', PStr ''Hamburg'')]"

definition mixed_call :: "(string \<times> pyval) list" where
  "mixed_call = [(''entity_id'', PList [PStr ''sensor.unknown'', PStr ''sensor.hvv_route'']),
                 (''destination_station'', PStr ''Altona''),
                 (''destination_city'', PStr ''Hamburg'')]"


section \<open>Evaluation rules\<close>

lemmas coordinator_defs =
  async_config_entry_first_refresh_def async_refresh_def async_update_data_def
  set_destination_def set_departure_time_def coordinator_init_def route_payload_def py_or_def

lemmas sensor_defs =
  state_def state_body_def extra_state_attributes_def attributes_body_def config_echo_def
  route_of_def first_leg_field_def

lemmas host_defs =
  async_setup_entry_def sensor_async_setup_entry_def new_coordinator_def hass_init_def
  async_add_entities_def write_log_def handle_set_route_def target_ids_def call_get_def
  route_step_def route_body_def stored_coordinator_def on_coordinator_def

lemmas input_defs =
  failing_client_def empty_client_def altona_client_def altona_response_def
  no_legs_response_def home_coordinator_def altona_coordinator_def entry1_def
  configured_hass_def altona_call_def mixed_call_def

section \<open>The refresh\<close>

lemma update_without_destination:
  "\<not> (truthy (dest_station c) \<and> truthy (dest_city c)) \<Longrightarrow>
     async_update_data gti c reqs = (Inr PNone, reqs)"
  by (simp add: async_update_data_def)

text \<open>
  C4. When \<open>destination_station\<close> or \<open>destination_city\<close> is unset (\<open>None\<close>) or empty (the
  empty string), the refresh returns the "no destination configured" marker \<open>None\<close> and the
  list of requests sent to the transit client is the one before the refresh: no call is made.
  The refresh of the base class then stores the marker as a success.
\<close>

theorem refresh_without_destination:
  assumes "dest_station c = PNone \<or> dest_station c = PStr [] \<or>
           dest_city c = PNone \<or> dest_city c = PStr []"
  shows "async_update_data gti c reqs = (Inr PNone, reqs) \<and>
         async_refresh gti c reqs = (c\<lparr>data := PNone, last_update_success := True\<rparr>, reqs)"
proof -
  from assms have "\<not> (truthy (dest_station c) \<and> truthy (dest_city c))"
    by auto
  then have "async_update_data gti c reqs = (Inr PNone, reqs)"
    by (rule update_without_destination)
  then show ?thesis
    by (simp add: async_refresh_def)
qed

theorem refresh_without_destination_witness:
  "async_update_data altona_client home_coordinator [] = (Inr PNone, []) \<and>
   async_refresh altona_client home_coordinator [] =
     (home_coordinator\<lparr>data := PNone, last_update_success := True\<rparr>, [])"
  using refresh_without_destination [of home_coordinator altona_client "[]"]
  by (simp add: home_coordinator_def coordinator_init_def)

text \<open>
  C7. With a destination configured, an empty response of the transit client makes the
  refresh raise \<open>UpdateFailed\<close>, after the one request it sent; the outcome is not the
  "no destination configured" marker.
\<close>

theorem empty_response_is_fetch_failure:
  assumes "truthy (dest_station c)" and "truthy (dest_city c)"
    and "gti (length reqs) (route_payload c) = Returns response"
    and "\<not> truthy response"
  shows "async_update_data gti c reqs =
           (Inl (UpdateFailed ''Error: No route data received''), reqs @ [route_payload c]) \<and>
         fst (async_update_data gti c reqs) \<noteq> Inr PNone"
  using assms by (simp add: async_update_data_def)

theorem empty_response_is_fetch_failure_witness:
  "async_update_data empty_client altona_coordinator [] =
     (Inl (UpdateFailed ''Error: No route data received''), [route_payload altona_coordinator]) \<and>
   fst (async_update_data empty_client altona_coordinator []) \<noteq> Inr PNone"
  using empty_response_is_fetch_failure
          [of altona_coordinator empty_client "[]" "PDict []"]
  by (simp add: altona_coordinator_def home_coordinator_def coordinator_init_def
        empty_client_def)

text \<open>
  C5. After \<open>set_destination(s, c)\<close> the destination fields are \<open>(s, c)\<close>, and exactly one
  run of the update routine on the new destination has completed before the call returns:
  the requests are those of that run (one more than before when both fields are set, as
  many as before otherwise), its payload is stored on success, and on a fetch failure the
  failure is recorded.
\<close>

theorem set_destination_sets_and_refreshes:
  assumes "set_destination gti s ci c reqs = (c', reqs')"
  shows "dest_station c' = s \<and> dest_city c' = ci \<and>
         reqs' = snd (async_update_data gti (c\<lparr>dest_station := s, dest_city := ci\<rparr>) reqs) \<and>
         reqs' = (if truthy s \<and> truthy ci
                  then reqs @ [route_payload (c\<lparr>dest_station := s, dest_city := ci\<rparr>)]
                  else reqs) \<and>
         (case fst (async_update_data gti (c\<lparr>dest_station := s, dest_city := ci\<rparr>) reqs) of
            Inr v \<Rightarrow> data c' = v \<and> last_update_success c'
          | Inl e \<Rightarrow> data c' = data c \<and> \<not> last_update_success c')"
  using assms
  by (auto simp: set_destination_def async_refresh_def async_update_data_def
           split: prod.splits sum.splits client_outcome.splits if_splits)

theorem set_destination_sets_and_refreshes_witness:
  "dest_station (fst (set_destination altona_client (PStr ''Altona'') (PStr ''Hamburg'')
                        home_coordinator [])) = PStr ''Altona'' \<and>
   dest_city (fst (set_destination altona_client (PStr ''Altona'') (PStr ''Hamburg'')
                     home_coordinator [])) = PStr ''Hamburg'' \<and>
   data (fst (set_destination altona_client (PStr ''Altona'') (PStr ''Hamburg'')
                home_coordinator [])) = altona_response \<and>
   length (snd (set_destination altona_client (PStr ''Altona'') (PStr ''Hamburg'')
                  home_coordinator [])) = 1"
  using set_destination_sets_and_refreshes
          [of altona_client "PStr ''Altona''" "PStr ''Hamburg''" home_coordinator "[]"
              "fst (set_destination altona_client (PStr ''Altona'') (PStr ''Hamburg'')
                      home_coordinator [])"
              "snd (set_destination altona_client (PStr ''Altona'') (PStr ''Hamburg'')
                      home_coordinator [])"]
  by (simp add: async_update_data_def altona_client_def altona_response_def)

text \<open>
  C9. \<open>set_departure_time(time_spec)\<close> leaves the destination fields, the home fields and the
  credentials as they were: of the fields of the route configuration only the departure-time
  override changes, and the refresh that follows writes only the stored payload and the
  success flag.
\<close>

theorem set_departure_time_frame:
  assumes "set_departure_time gti t c reqs = (c', reqs')"
  shows "dest_station c' = dest_station c \<and> dest_city c' = dest_city c \<and>
         home_station c' = home_station c \<and> home_city c' = home_city c \<and>
         departure_time c' = t \<and>
         c'\<lparr>data := data c, last_update_success := last_update_success c\<rparr> =
           c\<lparr>departure_time := t\<rparr>"
  using assms
  by (auto simp: set_departure_time_def async_refresh_def split: prod.splits sum.splits)

theorem set_departure_time_frame_witness:
  "dest_station (fst (set_departure_time altona_client (PStr ''08:00'') altona_coordinator []))
     = PStr ''Altona'' \<and>
   dest_city (fst (set_departure_time altona_client (PStr ''08:00'') altona_coordinator []))
     = PStr ''Hamburg'' \<and>
   home_station (fst (set_departure_time altona_client (PStr ''08:00'') altona_coordinator []))
     = PStr ''Hauptbahnhof'' \<and>
   departure_time (fst (set_departure_time altona_client (PStr ''08:00'') altona_coordinator []))
     = PStr ''08:00''"
  using set_departure_time_frame
          [of altona_client "PStr ''08:00''" altona_coordinator "[]"
              "fst (set_departure_time altona_client (PStr ''08:00'') altona_coordinator [])"
              "snd (set_departure_time altona_client (PStr ''08:00'') altona_coordinator [])"]
  by (simp add: altona_coordinator_def home_coordinator_def coordinator_init_def)

section \<open>The sensor\<close>

lemma failed_refresh_keeps_payload:
  "fst (async_update_data gti c reqs) = Inl e \<Longrightarrow>
     fst (async_refresh gti c reqs) = c\<lparr>last_update_success := False\<rparr>"
  by (auto simp: async_refresh_def split: prod.splits sum.splits)

text \<open>
  C2, as stated, fails: a coordinator with a destination whose first fetch fails has no
  stored payload, and the state of the sensor is \<open>No Destination Set\<close>, not \<open>Error\<close>.
\<close>

theorem state_after_failed_refresh_counterexample:
  "fst (async_update_data failing_client altona_coordinator []) =
     Inl (UpdateFailed ''Error: timeout'') \<and>
   \<not> last_update_success (fst (async_refresh failing_client altona_coordinator [])) \<and>
   state (fst (async_refresh failing_client altona_coordinator [])) =
     PStr ''No Destination Set'' \<and>
   state (fst (async_refresh failing_client altona_coordinator [])) \<noteq> PStr ''Error''"
  by (simp add: coordinator_defs sensor_defs input_defs)

text \<open>
  C2, amended. The state property reads the stored payload only. After a refresh that ended
  in a fetch failure the stored payload is the one from before, so the state is the value
  it had before that refresh: \<open>No Destination Set\<close> when no payload is stored, and \<open>Error\<close>
  when projecting the retained payload raises.
\<close>

theorem state_after_failed_refresh:
  assumes "fst (async_update_data gti c reqs) = Inl e"
  shows "state (fst (async_refresh gti c reqs)) = state c \<and>
         (\<not> truthy (data c) \<longrightarrow>
            state (fst (async_refresh gti c reqs)) = PStr ''No Destination Set'') \<and>
         (isl (state_body (data c)) \<longrightarrow>
            state (fst (async_refresh gti c reqs)) = PStr ''Error'')"
proof -
  have kept: "fst (async_refresh gti c reqs) = c\<lparr>last_update_success := False\<rparr>"
    using assms by (rule failed_refresh_keeps_payload)
  have same: "state (c\<lparr>last_update_success := False\<rparr>) = state c"
    by (simp add: state_def)
  have none: "\<not> truthy (data c) \<Longrightarrow> state c = PStr ''No Destination Set''"
    by (simp add: state_def state_body_def)
  have err: "isl (state_body (data c)) \<Longrightarrow> state c = PStr ''Error''"
    by (cases "state_body (data c)") (simp_all add: state_def)
  from kept same none err show ?thesis
    by simp
qed

theorem state_after_failed_refresh_witness:
  "state (fst (async_refresh failing_client altona_coordinator [])) = state altona_coordinator \<and>
   state (fst (async_refresh failing_client altona_coordinator [])) = PStr ''No Destination Set''"
proof -
  have failed: "fst (async_update_data failing_client altona_coordinator []) =
                  Inl (UpdateFailed ''Error: timeout'')"
    by (simp add: coordinator_defs input_defs)
  have empty: "\<not> truthy (data altona_coordinator)"
    by (simp add: coordinator_defs input_defs)
  from state_after_failed_refresh [OF failed] empty show ?thesis
    by metis
qed

lemma route_of_no_legs:
  "map_of j ''scheduleElements'' = Some (PList []) \<Longrightarrow> route_of (PDict j) = Inl IndexError"
  by (simp add: route_of_def first_leg_field_def)

lemma routes_loop_raises:
  "x \<in> set xs \<Longrightarrow> isl (route_of x) \<Longrightarrow> isl (routes_loop xs routes)"
proof (induction xs arbitrary: routes)
  case Nil
  then show ?case by simp
next
  case (Cons y ys)
  show ?case
  proof (cases "route_of y")
    case (Inl e)
    then show ?thesis by simp
  next
    case (Inr r)
    with Cons.prems have "x \<in> set ys" by auto
    with Cons.IH Cons.prems(2) have "isl (routes_loop ys (routes @ [r]))" by blast
    with Inr show ?thesis by simp
  qed
qed

text \<open>
  C10. When the stored payload holds a journey whose \<open>scheduleElements\<close> key is bound to the
  empty list, \<open>extra_state_attributes\<close> is the empty dict: the loop over the journeys ends in
  an exception (at that journey, indexing the first leg raises \<open>IndexError\<close>), and the
  handler of the property returns \<open>{}\<close>, without the configuration fields and without the
  entries of the other journeys.
\<close>

theorem attributes_empty_when_a_journey_has_no_legs:
  assumes "data c = PDict payload"
    and "map_of payload ''realtimeSchedules'' = Some (PList journeys)"
    and "PDict j \<in> set journeys"
    and "map_of j ''scheduleElements'' = Some (PList [])"
  shows "extra_state_attributes c = PDict [] \<and> route_of (PDict j) = Inl IndexError"
proof -
  have leg: "route_of (PDict j) = Inl IndexError"
    using assms(4) by (rule route_of_no_legs)
  then have "isl (routes_loop journeys [])"
    using assms(3) by (auto intro: routes_loop_raises)
  then obtain e where loop: "routes_loop journeys [] = Inl e"
    by (cases "routes_loop journeys []") simp_all
  from assms(2) have "payload \<noteq> []"
    by auto
  with assms(1,2) loop have "attributes_body c = Inl e"
    by (simp add: attributes_body_def)
  with leg show ?thesis
    by (simp add: extra_state_attributes_def)
qed

theorem attributes_empty_when_a_journey_has_no_legs_witness:
  "extra_state_attributes (altona_coordinator\<lparr>data := no_legs_response\<rparr>) = PDict []"
  using attributes_empty_when_a_journey_has_no_legs
          [of "altona_coordinator\<lparr>data := no_legs_response\<rparr>"
              "[(''realtimeSchedules'',
                 PList [PDict [(''time'', PInt 25), (''scheduleElements'', PList [])]])]"
              "[PDict [(''time'', PInt 25), (''scheduleElements'', PList [])]]"
              "[(''time'', PInt 25), (''scheduleElements'', PList [])]"]
  by (simp add: no_legs_response_def)

section \<open>Credential validation\<close>

lemma validate_auth_failure: "validate_auth names_resolve (ProbeRaises e) = Inl InvalidAuth"
  by (simp add: validate_auth_def inner_try_def)

text \<open>
  C3. A probe that fails with a network-connectivity error: the inner clause raises
  \<open>CannotConnect\<close>, the outer \<open>except Exception\<close> catches it, and the caller receives
  \<open>InvalidAuth\<close>, whether the names of the inner clauses resolve or not.
\<close>

theorem validate_auth_network_failure:
  "inner_try True (ProbeRaises NetworkError) = Inl CannotConnect \<and>
   validate_auth True (ProbeRaises NetworkError) = Inl InvalidAuth \<and>
   validate_auth False (ProbeRaises NetworkError) = Inl InvalidAuth"
  by (simp add: validate_auth_def inner_try_def)

section \<open>The route-setting command\<close>

lemma route_loop_append:
  "route_loop gti s c t (xs @ ys) h = route_loop gti s c t ys (route_loop gti s c t xs h)"
  by (induction xs arbitrary: h) simp_all

lemma on_coordinator_frame:
  "registry (on_coordinator m r h) = registry h \<and>
   domain_data (on_coordinator m r h) = domain_data h \<and>
   log (on_coordinator m r h) = log h"
  by (simp add: on_coordinator_def split: prod.splits)

lemma route_step_frame:
  "registry (route_step gti s c t h x) = registry h \<and>
   domain_data (route_step gti s c t h x) = domain_data h"
  by (cases "registry_get (registry h) x")
     (auto simp: route_step_def route_body_def write_log_def on_coordinator_frame Let_def
           split: option.splits)

lemma route_loop_frame:
  "registry (route_loop gti s c t xs h) = registry h \<and>
   domain_data (route_loop gti s c t xs h) = domain_data h"
  by (induction xs arbitrary: h) (simp_all add: route_step_frame)

lemma stored_coordinator_route_loop:
  "stored_coordinator (route_loop gti s c t xs h) cid = stored_coordinator h cid"
  by (simp add: stored_coordinator_def route_loop_frame)

lemma route_step_skips:
  assumes "registry_get (registry h) x = Inl e \<or>
           registry_get (registry h) x = Inr None \<or>
           (\<exists>entry. registry_get (registry h) x = Inr (Some entry) \<and>
                    stored_coordinator h (config_entry_id entry) = None)"
  shows "\<exists>entry. route_step gti s c t h x = write_log entry h \<and>
                 (level entry = Warning \<or> level entry = Error)"
  using assms by (auto simp: route_step_def route_body_def)

text \<open>
  C8. Given a list of entity ids, the handler returns without raising, and its result is
  that of the loop over the list. An id of the list that does not resolve (the registry has
  no entry for it, or no coordinator is stored for the entry's config entry) or whose
  processing raises (the registry lookup) leaves one record at warning or error level and
  nothing else: the ids before it have been processed, and the ids after it are processed
  from the state so reached.
\<close>

theorem set_route_skips_and_continues:
  assumes "map_of call_data ''entity_id'' = Some (PList ids)"
    and "s = call_get call_data ''destination_station'' PNone"
    and "c = call_get call_data ''destination_city'' PNone"
    and "t = call_get call_data ''departure_time'' (PStr ''currenttime'')"
  shows "handle_set_route gti call_data h = Inr (route_loop gti s c t ids h) \<and>
         (\<forall>before x rest e.
            ids = before @ x # rest \<and>
            (registry_get (registry h) x = Inl e \<or>
             registry_get (registry h) x = Inr None \<or>
             (\<exists>entry. registry_get (registry h) x = Inr (Some entry) \<and>
                      stored_coordinator h (config_entry_id entry) = None)) \<longrightarrow>
            (\<exists>rec. route_loop gti s c t ids h =
                        route_loop gti s c t rest
                          (write_log rec (route_loop gti s c t before h)) \<and>
                      (level rec = Warning \<or> level rec = Error)))"
proof (intro conjI allI impI)
  show "handle_set_route gti call_data h = Inr (route_loop gti s c t ids h)"
    using assms by (simp add: handle_set_route_def target_ids_def call_get_def)
next
  fix before x rest e
  assume split: "ids = before @ x # rest \<and>
    (registry_get (registry h) x = Inl e \<or>
     registry_get (registry h) x = Inr None \<or>
     (\<exists>entry. registry_get (registry h) x = Inr (Some entry) \<and>
              stored_coordinator h (config_entry_id entry) = None))"
  let ?h1 = "route_loop gti s c t before h"
  have reg: "registry ?h1 = registry h"
    by (simp add: route_loop_frame)
  have "registry_get (registry ?h1) x = Inl e \<or>
        registry_get (registry ?h1) x = Inr None \<or>
        (\<exists>entry. registry_get (registry ?h1) x = Inr (Some entry) \<and>
                 stored_coordinator ?h1 (config_entry_id entry) = None)"
    using split by (simp only: reg stored_coordinator_route_loop)
  then obtain rec where step: "route_step gti s c t ?h1 x = write_log rec ?h1"
    and lvl: "level rec = Warning \<or> level rec = Error"
    using route_step_skips by blast
  have "route_loop gti s c t ids h = route_loop gti s c t rest (write_log rec ?h1)"
    using split by (simp add: route_loop_append step)
  with lvl show "\<exists>rec. route_loop gti s c t ids h =
                   route_loop gti s c t rest (write_log rec ?h1) \<and>
                 (level rec = Warning \<or> level rec = Error)"
    by blast
qed

theorem set_route_skips_and_continues_witness:
  "handle_set_route altona_client mixed_call configured_hass =
     Inr (route_loop altona_client (PStr ''Altona'') (PStr ''Hamburg'') (PStr ''currenttime'')
            [PStr ''sensor.unknown'', PStr ''sensor.hvv_route''] configured_hass) \<and>
   (\<exists>rec. route_loop altona_client (PStr ''Altona'') (PStr ''Hamburg'')
               (PStr ''currenttime'')
               [PStr ''sensor.unknown'', PStr ''sensor.hvv_route''] configured_hass =
             route_loop altona_client (PStr ''Altona'') (PStr ''Hamburg'')
               (PStr ''currenttime'') [PStr ''sensor.hvv_route'']
               (write_log rec configured_hass) \<and>
             (level rec = Warning \<or> level rec = Error))"
proof -
  let ?ids = "[PStr ''sensor.unknown'', PStr ''sensor.hvv_route'']"
  have ids: "map_of mixed_call ''entity_id'' = Some (PList ?ids)"
    by (simp add: mixed_call_def)
  have unknown: "registry_get (registry configured_hass) (PStr ''sensor.unknown'') = Inr None"
    by (simp add: input_defs host_defs coordinator_defs)
  have s: "PStr ''Altona'' = call_get mixed_call ''destination_station'' PNone"
    and c: "PStr ''Hamburg'' = call_get mixed_call ''destination_city'' PNone"
    and t: "PStr ''currenttime'' = call_get mixed_call ''departure_time'' (PStr ''currenttime'')"
    by (simp_all add: mixed_call_def call_get_def)
  note main = set_route_skips_and_continues [OF ids s c t, of altona_client configured_hass]
  from main have run: "handle_set_route altona_client mixed_call configured_hass =
      Inr (route_loop altona_client (PStr ''Altona'') (PStr ''Hamburg'') (PStr ''currenttime'')
             ?ids configured_hass)"
    by (rule conjunct1)
  from main have "?ids = [] @ PStr ''sensor.unknown'' # [PStr ''sensor.hvv_route''] \<and>
      (registry_get (registry configured_hass) (PStr ''sensor.unknown'') = Inl TypeError \<or>
       registry_get (registry configured_hass) (PStr ''sensor.unknown'') = Inr None \<or>
       (\<exists>entry. registry_get (registry configured_hass) (PStr ''sensor.unknown'') =
                  Inr (Some entry) \<and>
                stored_coordinator configured_hass (config_entry_id entry) = None)) \<longrightarrow>
      (\<exists>rec. route_loop altona_client (PStr ''Altona'') (PStr ''Hamburg'')
                  (PStr ''currenttime'') ?ids configured_hass =
                route_loop altona_client (PStr ''Altona'') (PStr ''Hamburg'')
                  (PStr ''currenttime'') [PStr ''sensor.hvv_route'']
                  (write_log rec
                     (route_loop altona_client (PStr ''Altona'') (PStr ''Hamburg'')
                        (PStr ''currenttime'') [] configured_hass)) \<and>
                (level rec = Warning \<or> level rec = Error))"
    by blast
  with unknown have "\<exists>rec. route_loop altona_client (PStr ''Altona'') (PStr ''Hamburg'')
                  (PStr ''currenttime'') ?ids configured_hass =
                route_loop altona_client (PStr ''Altona'') (PStr ''Hamburg'')
                  (PStr ''currenttime'') [PStr ''sensor.hvv_route'']
                  (write_log rec configured_hass) \<and>
                (level rec = Warning \<or> level rec = Error)"
    by simp
  with run show ?thesis
    by blast
qed

text \<open>
  C6. A call without a \<open>departure_time\<close> parameter, after a call that set the override
  \<open>08:00\<close>: the parameter defaults to \<open>currenttime\<close>, the guard holds, and
  \<open>set_departure_time\<close> is called. The override is overwritten and the call sends two
  requests to the transit client, one for each of the two refreshes.
\<close>

theorem set_route_without_time_sets_departure_time:
  "map_of altona_call ''departure_time'' = None \<and>
   (case handle_set_route altona_client
           ((''departure_time'', PStr ''08:00'') # altona_call) configured_hass of
      Inl e \<Rightarrow> False
    | Inr h1 \<Rightarrow>
        departure_time (objects h1 0) = PStr ''08:00'' \<and>
        (case handle_set_route altona_client altona_call h1 of
           Inl e \<Rightarrow> False
         | Inr h2 \<Rightarrow>
             departure_time (objects h2 0) = PStr ''currenttime'' \<and>
             length (requests h2) = length (requests h1) + 2 \<and>
             log h2 = log h1 @ [RouteSet (PStr ''sensor.hvv_route'')
                                  (PStr ''Altona'') (PStr ''Hamburg'')]))"
  by (simp add: input_defs host_defs coordinator_defs)

section \<open>Setting up an instance\<close>

text \<open>
  C1. Setting up the config entry constructs two coordinators: the one of __init__.py, stored
  under the entry's id (reference 0), and the one of the sensor platform, held by the sensor
  (reference 1). The command resolves the sensor's entity id to the stored one and sets the
  destination there; the sensor's own coordinator keeps no destination, and the state of the
  sensor stays \<open>No Destination Set\<close>.
\<close>

theorem set_route_not_observed_by_sensor:
  "async_setup_entry altona_client ''sensor.hvv_route'' entry1 hass_init =
     Inr (True, configured_hass) \<and>
   stored_coordinator configured_hass (Some ''entry1'') = Some 0 \<and>
   map_option coordinator_ref (sensors configured_hass ''sensor.hvv_route'') = Some 1 \<and>
   (case handle_set_route altona_client altona_call configured_hass of
      Inl e \<Rightarrow> False
    | Inr h \<Rightarrow>
        dest_station (objects h 0) = PStr ''Altona'' \<and>
        state (objects h 0) = PInt 25 \<and>
        dest_station (objects h 1) = PNone \<and>
        state (objects h 1) = PStr ''No Destination Set'')"
  by (simp add: input_defs host_defs coordinator_defs sensor_defs)


lemma setup_constructs_two_coordinators:
  assumes "async_setup_entry gti entity_id entry h = Inr (True, h')"
  shows "stored_coordinator h' (Some (entry_id entry)) = Some (next_ref h) \<and>
         map_option coordinator_ref (sensors h' entity_id) = Some (Suc (next_ref h))"
  using assms
  by (auto simp: async_setup_entry_def sensor_async_setup_entry_def new_coordinator_def
        async_add_entities_def stored_coordinator_def write_log_def Let_def
        split: if_splits prod.splits sum.splits)

end
